theory Spec2Isabelle
  imports Complex_Main "HOL-Library.Char_ord" "HOL-Library.List_Lexorder" "HOL-Library.Product_Lexorder"
    "HOL-Library.Multiset"
begin

section \<open>Python values and strings\<close>

text \<open>
  The scraper works on decoded JSON. The fields it reads are scalars: a Python \<^verbatim>\<open>str\<close>
  is modelled as a \<^typ>\<open>string\<close> of ASCII characters (letters, digits and whitespace are
  the ASCII ones), a Python \<^verbatim>\<open>int\<close> as an unbounded \<^typ>\<open>int\<close>, \<^verbatim>\<open>None\<close> and a JSON
  \<^verbatim>\<open>null\<close> as \<open>JNull\<close>. JSON floats, arrays and nested objects are left out of the value
  type.
\<close>

datatype jval = JNull | JBool bool | JInt int | JStr string

datatype py_error = ValueError | IndexError | KeyError | TypeError
  | HTTPError | EmptyDataError | ParserError

text \<open>A decoded JSON object (a Python \<^verbatim>\<open>dict\<close> with string keys).\<close>

type_synonym jrec = "string \<rightharpoonup> jval"

text \<open>\<^verbatim>\<open>rec.get(key)\<close>: the value stored under the key, \<^verbatim>\<open>None\<close> when the key is absent.\<close>

definition rec_get :: "jrec \<Rightarrow> string \<Rightarrow> jval" where
  "rec_get r k = (case r k of None \<Rightarrow> JNull | Some v \<Rightarrow> v)"

text \<open>Python truthiness, as used by \<^verbatim>\<open>a or b\<close>.\<close>

fun truthy :: "jval \<Rightarrow> bool" where
  "truthy JNull = False"
| "truthy (JBool b) = b"
| "truthy (JInt i) = (i \<noteq> 0)"
| "truthy (JStr s) = (s \<noteq> [])"

text \<open>\<^verbatim>\<open>a or b\<close>: the first operand when it is truthy, the second otherwise.\<close>

definition py_or :: "jval \<Rightarrow> jval \<Rightarrow> jval" where
  "py_or a b = (if truthy a then a else b)"

text \<open>Python \<^verbatim>\<open>==\<close> on scalars: a \<^verbatim>\<open>bool\<close> is the integer 0 or 1.\<close>

fun py_eq :: "jval \<Rightarrow> jval \<Rightarrow> bool" where
  "py_eq (JBool a) (JInt i) = (i = (if a then 1 else 0))"
| "py_eq (JInt i) (JBool a) = (i = (if a then 1 else 0))"
| "py_eq a b = (a = b)"

subsection \<open>Decimal printing: \<^verbatim>\<open>str(n)\<close>\<close>

definition digit_char :: "nat \<Rightarrow> char" where
  "digit_char d = ''0123456789'' ! d"

function str_nat :: "nat \<Rightarrow> string" where
  "str_nat n = (if n < 10 then [digit_char n] else str_nat (n div 10) @ [digit_char (n mod 10)])"
  by pat_completeness auto
termination
  by (relation "measure id") auto

declare str_nat.simps [simp del]

definition str_int :: "int \<Rightarrow> string" where
  "str_int i = (if i < 0 then CHR ''-'' # str_nat (nat (- i)) else str_nat (nat i))"

text \<open>\<^verbatim>\<open>str(v)\<close>, which is also what an f-string placeholder \<^verbatim>\<open>{v}\<close> prints.\<close>

fun py_str :: "jval \<Rightarrow> string" where
  "py_str JNull = ''None''"
| "py_str (JBool b) = (if b then ''True'' else ''False'')"
| "py_str (JInt i) = str_int i"
| "py_str (JStr s) = s"

subsection \<open>Character classes and string methods\<close>

text \<open>
  \<^verbatim>\<open>str.isspace\<close> on ASCII: tab, line feed, vertical tab, form feed, carriage return,
  the four separators 0x1C..0x1F and the space.
\<close>

definition is_space :: "char \<Rightarrow> bool" where
  "is_space c = (let n = (of_char c :: nat) in (9 \<le> n \<and> n \<le> 13) \<or> (28 \<le> n \<and> n \<le> 32))"

definition is_alpha_char :: "char \<Rightarrow> bool" where
  "is_alpha_char c =
     (let n = (of_char c :: nat) in (65 \<le> n \<and> n \<le> 90) \<or> (97 \<le> n \<and> n \<le> 122))"

definition is_digit :: "char \<Rightarrow> bool" where
  "is_digit c = (let n = (of_char c :: nat) in 48 \<le> n \<and> n \<le> 57)"

text \<open>\<^verbatim>\<open>s.isalpha()\<close>: at least one character, and every character a letter.\<close>

definition isalpha :: "string \<Rightarrow> bool" where
  "isalpha s = (s \<noteq> [] \<and> list_all is_alpha_char s)"

text \<open>\<^verbatim>\<open>s.strip()\<close>: leading and trailing whitespace removed.\<close>

definition lstrip :: "string \<Rightarrow> string" where
  "lstrip s = dropWhile is_space s"

definition rstrip :: "string \<Rightarrow> string" where
  "rstrip s = rev (dropWhile is_space (rev s))"

definition strip :: "string \<Rightarrow> string" where
  "strip s = rstrip (lstrip s)"

text \<open>
  \<^verbatim>\<open>s.split(sep)\<close> for a one-character separator: the pieces between the separators,
  empty pieces kept; the result is never empty.
\<close>

fun split_on :: "char \<Rightarrow> string \<Rightarrow> string list" where
  "split_on sep [] = [[]]"
| "split_on sep (c # cs) =
     (if c = sep then [] # split_on sep cs
      else (case split_on sep cs of
              [] \<Rightarrow> [[c]]
            | p # ps \<Rightarrow> (c # p) # ps))"

text \<open>\<^verbatim>\<open>s.split()\<close>: the maximal runs of non-whitespace characters; may be empty.\<close>

fun split_ws_acc :: "string \<Rightarrow> string \<Rightarrow> string list" where
  "split_ws_acc cur [] = (if cur = [] then [] else [rev cur])"
| "split_ws_acc cur (c # cs) =
     (if is_space c then (if cur = [] then split_ws_acc [] cs else rev cur # split_ws_acc [] cs)
      else split_ws_acc (c # cur) cs)"

definition split_ws :: "string \<Rightarrow> string list" where
  "split_ws s = split_ws_acc [] s"

text \<open>\<^verbatim>\<open>sep.join(parts)\<close>.\<close>

fun join :: "string \<Rightarrow> string list \<Rightarrow> string" where
  "join sep [] = []"
| "join sep [p] = p"
| "join sep (p # q # ps) = p @ sep @ join sep (q # ps)"

section \<open>Event codec (JSON style)\<close>

definition STROKE_CODES :: "(string \<times> string) list" where
  "STROKE_CODES =
     [(''1'', ''Free''), (''2'', ''Back''), (''3'', ''Breast''), (''4'', ''Fly''), (''5'', ''IM'')]"

definition gender_code :: "jval \<Rightarrow> int" where
  "gender_code eventgender =
     (if py_eq eventgender (JStr ''M'') then 1
      else if py_eq eventgender (JStr ''F'') then 2
      else 0)"

definition stroke_name :: "jval \<Rightarrow> string" where
  "stroke_name code =
     (case map_of STROKE_CODES (py_str code) of Some n \<Rightarrow> n | None \<Rightarrow> py_str code)"

definition event_label_from_record :: "jrec \<Rightarrow> string" where
  "event_label_from_record r =
     (let dist = rec_get r ''eventdistance'';
          course = rec_get r ''eventcourse'';
          stroke = stroke_name (rec_get r ''eventstroke'')
      in py_str dist @ '' '' @ py_str course @ '' '' @ stroke)"

definition event_token_from_record :: "jrec \<Rightarrow> string" where
  "event_token_from_record r =
     (let gc = gender_code (rec_get r ''eventgender'');
          distance = rec_get r ''eventdistance'';
          course = rec_get r ''eventcourse'';
          stroke_code = rec_get r ''eventstroke''
      in str_int gc @ ''|'' @ py_str distance @ ''|'' @ py_str course @ ''|'' @ py_str stroke_code)"

section \<open>Legacy event codes\<close>

text \<open>The fixed table of event labels and their legacy codes, in the order of the source.\<close>

definition events :: "(string \<times> jval) list" where
  "events =
     [(''25 Y Free'', JStr ''125Y''), (''25 Y Back'', JStr ''225 Y''),
      (''25 Y Breast'', JStr ''325Y''), (''25 Y Fly'', JStr ''425Y''),
      (''50 Y Free'', JStr ''150Y''), (''75 Y Free'', JStr ''175Y''),
      (''100 Y Free'', JStr ''1100Y''), (''125 Y Free'', JStr ''1125Y''),
      (''200 Y Free'', JStr ''1200Y''), (''400 Y Free'', JStr ''1400Y''),
      (''500 Y Free'', JStr ''1500Y''), (''800 Y Free'', JStr ''1800Y''),
      (''1000 Y Free'', JStr ''11000Y''), (''1500 Y Free'', JStr ''11500Y''),
      (''1650 Y Free'', JStr ''11650Y''), (''50 Y Back'', JStr ''250Y''),
      (''100 Y Back'', JStr ''2100Y''), (''200 Y Back'', JStr ''2200Y''),
      (''50 Y Breast'', JStr ''350Y''), (''100 Y Breast'', JStr ''3100Y''),
      (''200 Y Breast'', JStr ''3200Y''), (''50 Y Fly'', JStr ''450Y''),
      (''100 Y Fly'', JStr ''4100Y''), (''200 Y Fly'', JStr ''4200Y''),
      (''100 Y IM'', JStr ''5100Y''), (''200 Y IM'', JStr ''5200Y''),
      (''400 Y IM'', JStr ''5400Y''), (''200 Free Relay'', JInt 6200),
      (''400 Free Relay'', JInt 6400), (''800 Free Relay'', JInt 6800),
      (''200 Medley Relay'', JInt 7200), (''400 Medley Relay'', JInt 7400),
      (''1 M Diving'', JStr ''H1''), (''1 M Diving (6 dives)'', JStr ''H16''),
      (''3 M Diving '', JStr ''H3''), (''3 M Diving (6 dives)'', JStr ''H36''),
      (''7M Diving'', JStr ''H75''), (''7M Diving (5 dives)'', JStr ''H75Y''),
      (''Platform Diving'', JStr ''H2''), (''50 Individual'', JStr ''H50''),
      (''100 Individual'', JStr ''H100''), (''200 Individual'', JStr ''H200''),
      (''25 S Free'', JStr ''125S''), (''25 S Back'', JStr ''225 S''),
      (''25 S Breast'', JStr ''325S''), (''25 S Fly'', JStr ''425S''),
      (''50 S Free'', JStr ''150S''), (''75 S Free'', JStr ''175S''),
      (''100 S Free'', JStr ''1100S''), (''125 S Free'', JStr ''1125S''),
      (''200 S Free'', JStr ''1200S''), (''400 S Free'', JStr ''1400S''),
      (''500 S Free'', JStr ''1500S''), (''800 S Free'', JStr ''1800S''),
      (''1000 S Free'', JStr ''11000S''), (''1500 S Free'', JStr ''11500S''),
      (''1650 S Free'', JStr ''11650S''), (''50 S Back'', JStr ''250S''),
      (''100 S Back'', JStr ''2100S''), (''200 S Back'', JStr ''2200S''),
      (''50 S Breast'', JStr ''350S''), (''100 S Breast'', JStr ''3100S''),
      (''200 S Breast'', JStr ''3200S''), (''50 S Fly'', JStr ''450S''),
      (''100 S Fly'', JStr ''4100S''), (''200 S Fly'', JStr ''4200S''),
      (''100 S IM'', JStr ''5100S''), (''200 S IM'', JStr ''5200S''),
      (''400 S IM'', JStr ''5400S''), (''50 L Free'', JStr ''150L''),
      (''100 L Free'', JStr ''1100L''), (''200 L Free'', JStr ''1200L''),
      (''400 L Free'', JStr ''1400L''), (''500 L Free'', JStr ''1500L''),
      (''800 L Free'', JStr ''1800L''), (''1000 L Free'', JStr ''11000L''),
      (''1500 L Free'', JStr ''11500L''), (''1650 L Free'', JStr ''11650L''),
      (''50 L Back'', JStr ''250L''), (''100 L Back'', JStr ''2100L''),
      (''200 L Back'', JStr ''2200L''), (''50 L Breast'', JStr ''350L''),
      (''100 L Breast'', JStr ''3100L''), (''200 L Breast'', JStr ''3200L''),
      (''50 L Fly'', JStr ''450L''), (''100 L Fly'', JStr ''4100L''),
      (''200 L Fly'', JStr ''4200L''), (''100 L IM'', JStr ''5100L''),
      (''200 L IM'', JStr ''5200L''), (''400 L IM'', JStr ''5400L'')]"

text \<open>\<^verbatim>\<open>xs.index(v)\<close>: the first position whose element equals \<open>v\<close>, else \<^verbatim>\<open>ValueError\<close>.\<close>

fun list_index :: "jval list \<Rightarrow> jval \<Rightarrow> py_error + nat" where
  "list_index [] v = Inl ValueError"
| "list_index (x # xs) v =
     (if py_eq x v then Inr 0
      else (case list_index xs v of Inl e \<Rightarrow> Inl e | Inr i \<Rightarrow> Inr (Suc i)))"

text \<open>\<^verbatim>\<open>list(events.keys())[list(events.values()).index(event_ID)]\<close>\<close>

definition getEventName :: "jval \<Rightarrow> py_error + string" where
  "getEventName event_ID =
     (case list_index (map snd events) event_ID of
        Inl e \<Rightarrow> Inl e
      | Inr i \<Rightarrow> Inr (map fst events ! i))"

text \<open>\<^verbatim>\<open>events.get(event_name)\<close>: \<^verbatim>\<open>None\<close> for a label that is not in the table.\<close>

definition getEventID :: "string \<Rightarrow> jval" where
  "getEventID event_name = (case map_of events event_name of None \<Rightarrow> JNull | Some v \<Rightarrow> v)"

text \<open>Auxiliary views used in the proofs: the label of the first entry with a given code.\<close>

fun is_bool :: "jval \<Rightarrow> bool" where
  "is_bool (JBool b) = True"
| "is_bool v = False"

fun first_label :: "(string \<times> jval) list \<Rightarrow> jval \<Rightarrow> py_error + string" where
  "first_label [] v = Inl ValueError"
| "first_label ((k, c) # kvs) v = (if py_eq c v then Inr k else first_label kvs v)"

section \<open>Hometown and name parsing\<close>

text \<open>\<^verbatim>\<open>xs[-1]\<close> and \<^verbatim>\<open>xs.pop()\<close> raise \<^verbatim>\<open>IndexError\<close> on an empty list.\<close>

definition last_item :: "'a list \<Rightarrow> py_error + 'a" where
  "last_item xs = (if xs = [] then Inl IndexError else Inr (last xs))"

definition pop :: "'a list \<Rightarrow> py_error + 'a list" where
  "pop xs = (if xs = [] then Inl IndexError else Inr (butlast xs))"

definition getState :: "string \<Rightarrow> py_error + string" where
  "getState hometown =
     (case last_item (split_on CHR '','' hometown) of
        Inl e \<Rightarrow> Inl e
      | Inr seg \<Rightarrow>
          (let home = strip seg in
           if isalpha home then Inr home else Inr ''NONE''))"

definition getCity :: "string \<Rightarrow> py_error + string" where
  "getCity hometown =
     (case pop (split_on CHR '','' hometown) of
        Inl e \<Rightarrow> Inl e
      | Inr home \<Rightarrow> Inr (join '' '' (map strip home)))"

text \<open>
  \<open>cleanName\<close> takes a name or \<^verbatim>\<open>None\<close>. The list comprehension keeps the stripped
  pieces that are not empty; \<^verbatim>\<open>tokens[0]\<close> raises \<^verbatim>\<open>IndexError\<close> on an empty list.
\<close>

definition cleanName :: "string option \<Rightarrow> py_error + string" where
  "cleanName name_arg =
     (case name_arg of
        None \<Rightarrow> Inr []
      | Some name0 \<Rightarrow>
          if name0 = [] then Inr []
          else
            (let name = strip name0 in
             if CHR '','' \<in> set name then
               (let parts = filter (\<lambda>p. p \<noteq> []) (map strip (split_on CHR '','' name)) in
                case parts of
                  [last_name, first_name] \<Rightarrow> Inr (strip (first_name @ '' '' @ last_name))
                | _ \<Rightarrow> Inr (join '' '' parts))
             else
               (let tokens = split_ws name in
                if length tokens \<le> 1 then
                  (case tokens of [] \<Rightarrow> Inl IndexError | t # _ \<Rightarrow> Inr t)
                else Inr (join '' '' tokens))))"

section \<open>Record flattener (JSON style)\<close>

text \<open>
  The remote service, as the two JSON endpoints the flattener calls. Each call either
  raises (\<^verbatim>\<open>raise_for_status\<close>, a network or a decoding error) or returns the decoded list
  of records. The swimmer identifier is whatever the caller passes (a number or a string).
\<close>

record swimcloud =
  getSwimmerProfileFastestTimes :: "jval \<Rightarrow> py_error + jrec list"
  getSwimmerTimesByEventJSON :: "jval \<Rightarrow> string \<Rightarrow> py_error + jrec list"



text \<open>
  The row of \<open>getSwimmerFastestTimesClean\<close>, and the row of \<open>getSwimmerAllTimes\<close>, which
  has three more columns.
\<close>

record fastest_row =
  swimmer_id :: jval
  event_label :: string
  eventdistance :: jval
  eventcourse :: jval
  eventstroke_name :: string
  eventgender :: jval
  eventtime :: jval
  dateofswim :: jval
  meet_name :: jval
  season_id :: jval






subsection \<open>Sorting the table\<close>

text \<open>
  \<^verbatim>\<open>sort_values\<close> orders the values of a key column in ascending order with the missing
  values (\<^verbatim>\<open>None\<close>) last. Strings are compared character by character, numbers by value
  (a \<^verbatim>\<open>bool\<close> being 0 or 1). A column that mixes strings and numbers cannot be ordered:
  the call raises \<^verbatim>\<open>TypeError\<close>. The key of a value is a triple: its class (numbers,
  strings, missing), its number and its string.
\<close>

fun na_last_key :: "jval \<Rightarrow> nat \<times> int \<times> string" where
  "na_last_key (JBool b) = (0, (if b then 1 else 0), [])"
| "na_last_key (JInt i) = (0, i, [])"
| "na_last_key (JStr s) = (1, 0, s)"
| "na_last_key JNull = (2, 0, [])"







text \<open>The row built by \<open>getSwimmerFastestTimesClean\<close> from one fastest-times record.\<close>

definition fastest_row_of :: "jval \<Rightarrow> jrec \<Rightarrow> fastest_row" where
  "fastest_row_of swimmer_ID r =
     \<lparr>swimmer_id = swimmer_ID,
      event_label = event_label_from_record r,
      eventdistance = rec_get r ''eventdistance'',
      eventcourse = rec_get r ''eventcourse'',
      eventstroke_name = stroke_name (rec_get r ''eventstroke''),
      eventgender = rec_get r ''eventgender'',
      eventtime = py_or (rec_get r ''eventtime'') (rec_get r ''time''),
      dateofswim = py_or (rec_get r ''dateofswim'') (rec_get r ''date_created''),
      meet_name = py_or (rec_get r ''meet_name'') (rec_get r ''name''),
      season_id = rec_get r ''season_id''\<rparr>"

definition fastest_row_key :: "fastest_row \<Rightarrow> (nat \<times> int \<times> string) \<times> string" where
  "fastest_row_key r = (na_last_key (swimmer_id r), event_label r)"

definition getSwimmerFastestTimesClean :: "swimcloud \<Rightarrow> jval \<Rightarrow> py_error + fastest_row list" where
  "getSwimmerFastestTimesClean S swimmer_ID =
     (case getSwimmerProfileFastestTimes S swimmer_ID of
        Inl e \<Rightarrow> Inl e
      | Inr fastest \<Rightarrow>
          (let rows = map (fastest_row_of swimmer_ID) fastest in
           if rows = [] then Inr [] else Inr (sort_key fastest_row_key rows)))"

subsection \<open>Views of a run used in the statements\<close>










section \<open>Teams reference table\<close>

text \<open>
  A pandas \<^verbatim>\<open>DataFrame\<close>: the column names in order, and the rows, each a map from
  column name to cell. A missing cell is \<open>JNull\<close>.
\<close>

record dataframe =
  df_columns :: "string list"
  df_rows :: "jrec list"

text \<open>
  What \<open>load_teams\<close> reads from its environment: the default location of the CSV file,
  whether a path exists, the size of the file there, and what \<^verbatim>\<open>pandas.read_csv\<close> makes of
  it (a table or an exception).
\<close>

record pyenv =
  default_teams_path :: string
  path_exists :: "string \<Rightarrow> bool"
  st_size :: "string \<Rightarrow> nat"
  read_csv :: "string \<Rightarrow> py_error + dataframe"

definition expected_cols :: "string list" where
  "expected_cols =
     [''team_name'', ''team_ID'', ''team_state'', ''team_division'', ''team_division_ID'',
      ''team_conference'', ''team_conference_ID'']"

text \<open>\<^verbatim>\<open>pd.DataFrame(columns=cols)\<close>\<close>

definition empty_frame :: "string list \<Rightarrow> dataframe" where
  "empty_frame cols = \<lparr>df_columns = cols, df_rows = []\<rparr>"

text \<open>\<^verbatim>\<open>df[col] = v\<close>: a new column is appended; an existing one is overwritten in place.\<close>

definition set_column :: "string \<Rightarrow> jval \<Rightarrow> dataframe \<Rightarrow> dataframe" where
  "set_column col v df =
     \<lparr>df_columns = (if col \<in> set (df_columns df) then df_columns df else df_columns df @ [col]),
      df_rows = map (\<lambda>r. r(col \<mapsto> v)) (df_rows df)\<rparr>"

text \<open>\<^verbatim>\<open>df[cols]\<close>: the named columns in the given order; \<^verbatim>\<open>KeyError\<close> if one is missing.\<close>

definition select_columns :: "string list \<Rightarrow> dataframe \<Rightarrow> py_error + dataframe" where
  "select_columns cols df =
     (if list_all (\<lambda>c. c \<in> set (df_columns df)) cols
      then Inr \<lparr>df_columns = cols, df_rows = map (\<lambda>r. r |` set cols) (df_rows df)\<rparr>
      else Inl KeyError)"

text \<open>The loop of \<open>load_teams\<close> that adds each expected column the file does not have.\<close>

fun add_missing_columns :: "string list \<Rightarrow> dataframe \<Rightarrow> dataframe" where
  "add_missing_columns [] df = df"
| "add_missing_columns (col # cols) df =
     add_missing_columns cols
       (if col \<notin> set (df_columns df) then set_column col JNull df else df)"

definition load_teams :: "pyenv \<Rightarrow> string option \<Rightarrow> py_error + dataframe" where
  "load_teams env path_arg =
     (let path = (case path_arg of None \<Rightarrow> default_teams_path env | Some p \<Rightarrow> p) in
      if \<not> path_exists env path then Inr (empty_frame expected_cols)
      else if st_size env path = 0 then Inr (empty_frame expected_cols)
      else
        (case read_csv env path of
           Inl e \<Rightarrow> if e = EmptyDataError then Inr (empty_frame expected_cols) else Inl e
         | Inr df \<Rightarrow> select_columns expected_cols (add_missing_columns expected_cols df)))"

text \<open>\<^verbatim>\<open>row[col]\<close> on a row of the table: \<^verbatim>\<open>KeyError\<close> when the table has no such column.\<close>

definition row_item :: "jrec \<Rightarrow> string \<Rightarrow> py_error + jval" where
  "row_item row col = (case row col of None \<Rightarrow> Inl KeyError | Some v \<Rightarrow> Inr v)"

text \<open>
  The loops of \<open>getTeamID\<close> and \<open>getTeamName\<close> over the rows of the global table
  \<open>teams\<close>, with the value found so far.
\<close>

fun getTeamID_loop :: "jrec list \<Rightarrow> string \<Rightarrow> jval \<Rightarrow> py_error + jval" where
  "getTeamID_loop [] team_name team_number = Inr team_number"
| "getTeamID_loop (row # rows) team_name team_number =
     (case row_item row ''team_name'' of
        Inl e \<Rightarrow> Inl e
      | Inr n \<Rightarrow>
          if py_eq n (JStr team_name) then
            (case row_item row ''team_ID'' of
               Inl e \<Rightarrow> Inl e
             | Inr i \<Rightarrow> getTeamID_loop rows team_name i)
          else getTeamID_loop rows team_name team_number)"

definition getTeamID :: "dataframe \<Rightarrow> string \<Rightarrow> py_error + jval" where
  "getTeamID teams team_name = getTeamID_loop (df_rows teams) team_name (JInt (- 1))"

fun getTeamName_loop :: "jrec list \<Rightarrow> int \<Rightarrow> jval \<Rightarrow> py_error + jval" where
  "getTeamName_loop [] team_ID team_name = Inr team_name"
| "getTeamName_loop (row # rows) team_ID team_name =
     (case row_item row ''team_ID'' of
        Inl e \<Rightarrow> Inl e
      | Inr i \<Rightarrow>
          if py_eq i (JInt team_ID) then
            (case row_item row ''team_name'' of
               Inl e \<Rightarrow> Inl e
             | Inr n \<Rightarrow> getTeamName_loop rows team_ID n)
          else getTeamName_loop rows team_ID team_name)"

definition getTeamName :: "dataframe \<Rightarrow> int \<Rightarrow> py_error + jval" where
  "getTeamName teams team_ID = getTeamName_loop (df_rows teams) team_ID (JStr [])"

text \<open>Every row has a cell for each column of the table.\<close>

definition frame_complete :: "dataframe \<Rightarrow> bool" where
  "frame_complete df = list_all (\<lambda>r. dom r = set (df_columns df)) (df_rows df)"

text \<open>The rows that match a lookup.\<close>

definition rows_named :: "dataframe \<Rightarrow> string \<Rightarrow> jrec list" where
  "rows_named teams team_name =
     filter (\<lambda>row. py_eq (rec_get row ''team_name'') (JStr team_name)) (df_rows teams)"

definition rows_with_id :: "dataframe \<Rightarrow> int \<Rightarrow> jrec list" where
  "rows_with_id teams team_ID =
     filter (\<lambda>row. py_eq (rec_get row ''team_ID'') (JInt team_ID)) (df_rows teams)"


definition demo_teams :: dataframe where
  "demo_teams =
     \<lparr>df_columns = [''team_name'', ''team_ID''],
      df_rows =
        [[''team_name'' \<mapsto> JStr ''Florida'', ''team_ID'' \<mapsto> JInt 117],
         [''team_name'' \<mapsto> JStr ''Texas'', ''team_ID'' \<mapsto> JInt 105],
         [''team_name'' \<mapsto> JStr ''Florida'', ''team_ID'' \<mapsto> JInt 999],
         [''team_name'' \<mapsto> JStr ''Texas B'', ''team_ID'' \<mapsto> JInt 105]]\<rparr>"

section \<open>Display times\<close>




subsection \<open>\<^verbatim>\<open>float(s)\<close> on a string\<close>













section \<open>Properties of the event token\<close>

lemma str_int_small:
  "str_int 0 = ''0''" "str_int 1 = ''1''" "str_int 2 = ''2''"
  by (simp_all add: str_int_def str_nat.simps digit_char_def)

text \<open>
  Claim C9. The event token of a record is the gender code, the distance, the course and
  the stroke code joined by \<open>|\<close>, where the gender code is 1 for \<open>M\<close>, 2 for \<open>F\<close> and 0 for
  every other value (an absent field included), and the three other fields are printed as
  they are, unchecked. So the token begins with \<open>1|\<close> for an \<open>M\<close> record, \<open>2|\<close> for an
  \<open>F\<close> record and \<open>0|\<close> for any other.
\<close>

theorem event_token_format:
  "event_token_from_record r =
     (if rec_get r ''eventgender'' = JStr ''M'' then ''1''
      else if rec_get r ''eventgender'' = JStr ''F'' then ''2'' else ''0'')
     @ ''|'' @ py_str (rec_get r ''eventdistance'')
     @ ''|'' @ py_str (rec_get r ''eventcourse'')
     @ ''|'' @ py_str (rec_get r ''eventstroke'')
   \<and> take 2 (event_token_from_record r) =
     (if rec_get r ''eventgender'' = JStr ''M'' then ''1|''
      else if rec_get r ''eventgender'' = JStr ''F'' then ''2|'' else ''0|'')
   \<and> py_str (JStr s) = s"
  by (simp add: event_token_from_record_def gender_code_def str_int_small)

section \<open>Round trip through the legacy event table\<close>

lemma list_index_first_label:
  "(case list_index (map snd kvs) v of Inl e \<Rightarrow> Inl e | Inr i \<Rightarrow> Inr (map fst kvs ! i))
     = first_label kvs v"
  by (induction kvs) (auto split: sum.splits)

lemma getEventName_first_label: "getEventName v = first_label events v"
  by (simp add: getEventName_def list_index_first_label)

lemma first_label_absent:
  "\<forall>c\<in>set (map snd kvs). \<not> py_eq c v \<Longrightarrow> first_label kvs v = Inl ValueError"
  by (induction kvs) auto

lemma length_events: "length events = 90"
  by (simp add: events_def)

lemma distinct_labels: "distinct (map fst events)"
  by (simp add: events_def)

lemma distinct_codes: "distinct (map snd events)"
  by (simp add: events_def)

lemma py_eq_refl: "py_eq v v"
  by (cases v) auto

lemma py_eq_no_bool: "\<not> is_bool a \<Longrightarrow> \<not> is_bool b \<Longrightarrow> py_eq a b = (a = b)"
  by (cases a; cases b) auto

lemma first_label_roundtrip:
  "distinct (map snd kvs) \<Longrightarrow> \<forall>c\<in>set (map snd kvs). \<not> is_bool c \<Longrightarrow> (k, c) \<in> set kvs
     \<Longrightarrow> first_label kvs c = Inr k"
proof (induction kvs)
  case Nil
  then show ?case by simp
next
  case (Cons p kvs)
  obtain k' c' where p: "p = (k', c')" by (cases p)
  show ?case
  proof (cases "(k, c) = (k', c')")
    case True
    then show ?thesis using p by (simp add: py_eq_refl)
  next
    case False
    with Cons.prems p have mem: "(k, c) \<in> set kvs" by auto
    then have "c \<in> snd ` set kvs" by force
    with Cons.prems(1) p have "c' \<noteq> c" by auto
    moreover have "\<not> is_bool c'" "\<not> is_bool c" using Cons.prems(2) p mem by force+
    ultimately have "\<not> py_eq c' c" by (simp add: py_eq_no_bool)
    moreover have "first_label kvs c = Inr k" using Cons.IH Cons.prems mem by simp
    ultimately show ?thesis using p by simp
  qed
qed

lemma no_bool_codes: "\<forall>c\<in>set (map snd events). \<not> is_bool c"
  by (simp add: events_def)

lemma getEventID_member:
  assumes "label \<in> set (map fst events)"
  shows "(label, getEventID label) \<in> set events"
proof -
  from assms obtain c where "(label, c) \<in> set events" by auto
  then have "map_of events label = Some c" using distinct_labels by simp
  then show ?thesis using \<open>(label, c) \<in> set events\<close> by (simp add: getEventID_def)
qed

text \<open>
  Claim C2. For every label of the fixed events table, looking up its code and then the
  label of that code gives the label back. This includes the entry \<open>25 Y Back\<close>, whose
  code \<open>225 Y\<close> has an embedded space. For a value that is the code of no label,
  \<open>getEventName\<close> fails (the \<^verbatim>\<open>ValueError\<close> of \<^verbatim>\<open>list.index\<close>) instead of returning a
  label.
\<close>

theorem event_code_roundtrip:
  "(\<forall>label\<in>set (map fst events). getEventName (getEventID label) = Inr label)
   \<and> getEventID ''25 Y Back'' = JStr ''225 Y''
   \<and> getEventName (JStr ''225 Y'') = Inr ''25 Y Back''
   \<and> (\<forall>code. (\<forall>c\<in>set (map snd events). \<not> py_eq c code) \<longrightarrow> getEventName code = Inl ValueError)"
proof (intro conjI ballI allI impI)
  fix label assume "label \<in> set (map fst events)"
  then show "getEventName (getEventID label) = Inr label"
    using first_label_roundtrip [OF distinct_codes no_bool_codes getEventID_member]
    by (simp add: getEventName_first_label)
next
  show a: "getEventID ''25 Y Back'' = JStr ''225 Y''"
    by (simp add: getEventID_def events_def)
  have "''25 Y Back'' \<in> set (map fst events)" by (simp add: events_def)
  then have "first_label events (getEventID ''25 Y Back'') = Inr ''25 Y Back''"
    using first_label_roundtrip [OF distinct_codes no_bool_codes getEventID_member] by blast
  then show "getEventName (JStr ''225 Y'') = Inr ''25 Y Back''"
    using a by (simp add: getEventName_first_label)
next
  fix code assume "\<forall>c\<in>set (map snd events). \<not> py_eq c code"
  then show "getEventName code = Inl ValueError"
    by (simp add: getEventName_first_label first_label_absent)
qed

text \<open>
  The round trip at the label with a trailing space, a string that is close to a code but
  not one, and the relay code, which is an integer and not the string of its digits.
\<close>

theorem event_code_roundtrip_witness:
  "''3 M Diving '' \<in> set (map fst events)
   \<and> getEventName (getEventID ''3 M Diving '') = Inr ''3 M Diving ''
   \<and> getEventID ''3 M Diving '' = JStr ''H3''
   \<and> getEventName (JStr ''225Y'') = Inl ValueError
   \<and> getEventName (JStr ''6200'') = Inl ValueError
   \<and> getEventName (JInt 6200) = Inr ''200 Free Relay''"
proof -
  have m: "''3 M Diving '' \<in> set (map fst events)" by (simp add: events_def)
  have r: "getEventName (getEventID ''3 M Diving '') = Inr ''3 M Diving ''"
    using event_code_roundtrip m by blast
  have i: "getEventID ''3 M Diving '' = JStr ''H3''" by (simp add: getEventID_def events_def)
  have n1: "\<forall>c\<in>set (map snd events). \<not> py_eq c (JStr ''225Y'')" by (simp add: events_def)
  have n2: "\<forall>c\<in>set (map snd events). \<not> py_eq c (JStr ''6200'')" by (simp add: events_def)
  have e1: "getEventName (JStr ''225Y'') = Inl ValueError" using event_code_roundtrip n1 by blast
  have e2: "getEventName (JStr ''6200'') = Inl ValueError" using event_code_roundtrip n2 by blast
  have "''200 Free Relay'' \<in> set (map fst events)" by (simp add: events_def)
  then have "getEventName (getEventID ''200 Free Relay'') = Inr ''200 Free Relay''"
    using event_code_roundtrip by blast
  moreover have "getEventID ''200 Free Relay'' = JInt 6200" by (simp add: getEventID_def events_def)
  ultimately have r2: "getEventName (JInt 6200) = Inr ''200 Free Relay''" by simp
  show ?thesis using m r i e1 e2 r2 by blast
qed

section \<open>Hometown strings\<close>




lemmas string_eval =
  strip_def lstrip_def rstrip_def is_space_def isalpha_def is_alpha_char_def is_digit_def



lemma hometown_examples:
  "getCity ''Unknown City, 123'' = Inr ''Unknown City''"
  "getState ''Austin,'' = Inr ''NONE''"
  "getState ''Paris, France '' = Inr ''France''"
  by (simp_all add: getState_def getCity_def last_item_def pop_def string_eval)

section \<open>Name normalisation\<close>




lemma cleanName_examples:
  "cleanName (Some ''Smith, John'') = Inr ''John Smith''"
  "cleanName (Some ''John Smith'') = Inr ''John Smith''"
  "cleanName (Some ''Madonna'') = Inr ''Madonna''"
  by (simp_all add: cleanName_def split_ws_def string_eval)

section \<open>Distinct events and the per-event requests\<close>






section \<open>The order of the returned rows\<close>












section \<open>A failing per-event request\<close>






section \<open>Field fallbacks of the flattened rows\<close>

text \<open>
  The rows of \<open>getSwimmerFastestTimesClean\<close> are the rows \<open>fastest_row_of\<close> builds from
  the records of the response, reordered; those of \<open>getSwimmerAllTimes\<close> are built by
  \<open>swim_row_of\<close>.
\<close>

lemma getSwimmerFastestTimesClean_rows:
  assumes "getSwimmerProfileFastestTimes S sid = Inr fastest"
  shows "\<exists>rows. getSwimmerFastestTimesClean S sid = Inr rows
    \<and> mset rows = mset (map (fastest_row_of sid) fastest)"
  using assms by (simp add: getSwimmerFastestTimesClean_def Let_def)



section \<open>Loading the teams table\<close>

lemma add_missing_columns_superset:
  "set (df_columns df) \<union> set cols \<subseteq> set (df_columns (add_missing_columns cols df))"
proof (induction cols arbitrary: df)
  case Nil
  then show ?case by simp
next
  case (Cons c cols)
  let ?df = "if c \<notin> set (df_columns df) then set_column c JNull df else df"
  have "set (df_columns df) \<union> {c} \<subseteq> set (df_columns ?df)"
    by (auto simp: set_column_def)
  moreover have "set (df_columns ?df) \<union> set cols \<subseteq> set (df_columns (add_missing_columns cols ?df))"
    by (rule Cons.IH)
  ultimately show ?case by auto
qed

lemma select_after_add:
  "\<exists>rows. select_columns cols (add_missing_columns cols df) = Inr \<lparr>df_columns = cols, df_rows = rows\<rparr>"
  using add_missing_columns_superset [of df cols]
  by (auto simp: select_columns_def list_all_iff)

lemma set_column_complete: "frame_complete df \<Longrightarrow> frame_complete (set_column c v df)"
  by (auto simp: frame_complete_def set_column_def list_all_iff)

lemma add_missing_columns_complete:
  "frame_complete df \<Longrightarrow> frame_complete (add_missing_columns cols df)"
  by (induction cols arbitrary: df) (auto simp: set_column_complete)

lemma select_columns_complete:
  assumes "frame_complete df" "select_columns cols df = Inr df'"
  shows "frame_complete df'"
proof -
  from assms(2) have sub: "set cols \<subseteq> set (df_columns df)"
    and df': "df' = \<lparr>df_columns = cols, df_rows = map (\<lambda>r. r |` set cols) (df_rows df)\<rparr>"
    by (auto simp: select_columns_def list_all_iff split: if_splits)
  show ?thesis using assms(1) sub
    by (auto simp: df' frame_complete_def list_all_iff)
qed

text \<open>
  A table returned by \<open>load_teams\<close> has a cell for every expected column in every row,
  provided the tables of \<^verbatim>\<open>read_csv\<close> have a cell for each of their columns.
\<close>

lemma load_teams_complete:
  assumes "\<And>p df. read_csv env p = Inr df \<Longrightarrow> frame_complete df"
    and "load_teams env path_arg = Inr teams"
  shows "frame_complete teams \<and> df_columns teams = expected_cols"
proof -
  define path where "path = (case path_arg of None \<Rightarrow> default_teams_path env | Some p \<Rightarrow> p)"
  have e: "frame_complete (empty_frame expected_cols)
      \<and> df_columns (empty_frame expected_cols) = expected_cols"
    by (simp add: frame_complete_def empty_frame_def)
  have unfold: "load_teams env path_arg =
      (if \<not> path_exists env path then Inr (empty_frame expected_cols)
       else if st_size env path = 0 then Inr (empty_frame expected_cols)
       else (case read_csv env path of
           Inl e \<Rightarrow> if e = EmptyDataError then Inr (empty_frame expected_cols) else Inl e
         | Inr df \<Rightarrow> select_columns expected_cols (add_missing_columns expected_cols df)))"
    by (simp add: load_teams_def path_def Let_def)
  show ?thesis
  proof (cases "\<not> path_exists env path \<or> st_size env path = 0")
    case True
    then have "load_teams env path_arg = Inr (empty_frame expected_cols)"
      unfolding unfold by auto
    with assms(2) have "teams = empty_frame expected_cols" by simp
    with e show ?thesis by simp
  next
    case False
    then have l: "load_teams env path_arg =
        (case read_csv env path of
           Inl e \<Rightarrow> if e = EmptyDataError then Inr (empty_frame expected_cols) else Inl e
         | Inr df \<Rightarrow> select_columns expected_cols (add_missing_columns expected_cols df))"
      unfolding unfold by simp
    show ?thesis
    proof (cases "read_csv env path")
      case (Inl err)
      with l assms(2) have "teams = empty_frame expected_cols"
        by (cases "err = EmptyDataError") simp_all
      with e show ?thesis by simp
    next
      case (Inr df)
      then have c: "frame_complete (add_missing_columns expected_cols df)"
        using assms(1) add_missing_columns_complete by blast
      from l Inr assms(2)
      have s: "select_columns expected_cols (add_missing_columns expected_cols df) = Inr teams"
        by simp
      have "frame_complete teams" using c s by (rule select_columns_complete)
      moreover have "df_columns teams = expected_cols"
        using s select_after_add [of expected_cols df] by auto
      ultimately show ?thesis by simp
    qed
  qed
qed




section \<open>Team lookups\<close>

lemma getTeamID_loop_last:
  assumes "\<forall>row\<in>set rows. row ''team_name'' \<noteq> None \<and> row ''team_ID'' \<noteq> None"
  shows "getTeamID_loop rows name acc =
    Inr (let ms = filter (\<lambda>row. py_eq (rec_get row ''team_name'') (JStr name)) rows
         in if ms = [] then acc else rec_get (last ms) ''team_ID'')"
  using assms
proof (induction rows arbitrary: acc)
  case Nil
  then show ?case by simp
next
  case (Cons row rows)
  from Cons.prems obtain n i where n: "row ''team_name'' = Some n" and i: "row ''team_ID'' = Some i"
    by auto
  have ih: "getTeamID_loop rows name a =
    Inr (let ms = filter (\<lambda>row. py_eq (rec_get row ''team_name'') (JStr name)) rows
         in if ms = [] then a else rec_get (last ms) ''team_ID'')" for a
    using Cons.IH Cons.prems by simp
  show ?case
    by (simp add: row_item_def n i rec_get_def [of row] ih Let_def)
qed

lemma getTeamName_loop_last:
  assumes "\<forall>row\<in>set rows. row ''team_name'' \<noteq> None \<and> row ''team_ID'' \<noteq> None"
  shows "getTeamName_loop rows tid acc =
    Inr (let ms = filter (\<lambda>row. py_eq (rec_get row ''team_ID'') (JInt tid)) rows
         in if ms = [] then acc else rec_get (last ms) ''team_name'')"
  using assms
proof (induction rows arbitrary: acc)
  case Nil
  then show ?case by simp
next
  case (Cons row rows)
  from Cons.prems obtain n i where n: "row ''team_name'' = Some n" and i: "row ''team_ID'' = Some i"
    by auto
  have ih: "getTeamName_loop rows tid a =
    Inr (let ms = filter (\<lambda>row. py_eq (rec_get row ''team_ID'') (JInt tid)) rows
         in if ms = [] then a else rec_get (last ms) ''team_name'')" for a
    using Cons.IH Cons.prems by simp
  show ?case
    by (simp add: row_item_def n i rec_get_def [of row] ih Let_def)
qed

text \<open>
  Claim C6. For every teams table (one with the columns \<open>team_name\<close> and \<open>team_ID\<close>, as
  every table of \<open>load_teams\<close> has): \<open>getTeamID\<close> returns the \<open>team_ID\<close> of the last row
  whose name equals the given name and -1 when there is none; \<open>getTeamName\<close> returns
  the \<open>team_name\<close> of the last row whose ID equals the given ID and the empty string when
  there is none. Neither lookup fails.
\<close>

theorem team_lookup_last_wins:
  assumes "\<forall>row\<in>set (df_rows teams). row ''team_name'' \<noteq> None \<and> row ''team_ID'' \<noteq> None"
  shows "getTeamID teams team_name =
      Inr (if rows_named teams team_name = [] then JInt (- 1)
           else rec_get (last (rows_named teams team_name)) ''team_ID'')
    \<and> getTeamName teams team_ID =
      Inr (if rows_with_id teams team_ID = [] then JStr []
           else rec_get (last (rows_with_id teams team_ID)) ''team_name'')"
  using getTeamID_loop_last [OF assms] getTeamName_loop_last [OF assms]
  by (simp add: getTeamID_def getTeamName_def rows_named_def rows_with_id_def Let_def)

text \<open>
  In the example table \<open>Florida\<close> occurs twice (IDs 117 and 999) and the ID 105 twice
  (\<open>Texas\<close> and \<open>Texas B\<close>): the later row wins in both lookups.
\<close>

theorem team_lookup_last_wins_witness:
  "getTeamID demo_teams ''Florida'' = Inr (JInt 999)
   \<and> getTeamID demo_teams ''Georgia'' = Inr (JInt (- 1))
   \<and> getTeamName demo_teams 105 = Inr (JStr ''Texas B'')
   \<and> getTeamName demo_teams 42 = Inr (JStr [])"
proof -
  have a: "\<forall>row\<in>set (df_rows demo_teams). row ''team_name'' \<noteq> None \<and> row ''team_ID'' \<noteq> None"
    by (simp add: demo_teams_def)
  note main = team_lookup_last_wins [OF a]
  have "getTeamID demo_teams ''Florida'' = Inr (JInt 999)"
    using main [of "''Florida''"] by (simp add: rows_named_def demo_teams_def rec_get_def)
  moreover have "getTeamID demo_teams ''Georgia'' = Inr (JInt (- 1))"
    using main [of "''Georgia''"] by (simp add: rows_named_def demo_teams_def rec_get_def)
  moreover have "getTeamName demo_teams 105 = Inr (JStr ''Texas B'')"
    using main [of _ 105] by (simp add: rows_with_id_def demo_teams_def rec_get_def)
  moreover have "getTeamName demo_teams 42 = Inr (JStr [])"
    using main [of _ 42] by (simp add: rows_with_id_def demo_teams_def rec_get_def)
  ultimately show ?thesis by blast
qed

section \<open>Parsing display times\<close>









subsection \<open>Literals that \<open>py_float\<close> accepts\<close>







subsection \<open>A colon is never part of a number\<close>


















end
